theory Spec2Isabelle
  imports Main
begin

section \<open>Listener bootstrap of \<^verbatim>\<open>src/node/app.ts\<close>\<close>

text \<open>
  The file has five functions: \<^verbatim>\<open>listen\<close>, \<^verbatim>\<open>createApp\<close>, \<^verbatim>\<open>ensureAddress\<close>,
  \<^verbatim>\<open>handleServerError\<close> and \<^verbatim>\<open>handleArgsSocketCatchError\<close>. They are embedded below
  with explicit state: the listeners registered on the server, the promise that
  \<^verbatim>\<open>listen\<close> returns, the calls made to the logger, to \<^verbatim>\<open>fs\<close> and to \<^verbatim>\<open>server.listen\<close>.
  What Node, Express and the file system answer is a parameter of the model.
\<close>

subsection \<open>Values\<close>

text \<open>
  A caught or emitted JavaScript error. Only the two properties that the code reads
  are kept; \<open>None\<close> is \<^verbatim>\<open>undefined\<close>.
\<close>

record js_error =
  message :: "string option"
  code :: "string option"

text \<open>JavaScript truthiness of an optional string: \<^verbatim>\<open>undefined\<close> and \<^verbatim>\<open>""\<close> are falsy.\<close>

fun truthy :: "string option \<Rightarrow> bool" where
  "truthy None = False"
| "truthy (Some s) = (s \<noteq> [])"

text \<open>
  \<^verbatim>\<open>`${n}`\<close> for a number that is a non-negative integer (a port): its decimal digits.
\<close>

definition digit :: "nat \<Rightarrow> char" where
  "digit d = ''0123456789'' ! d"

fun number_to_string :: "nat \<Rightarrow> string" where
  "number_to_string n =
     (if n < 10 then [digit n] else number_to_string (n div 10) @ [digit (n mod 10)])"

declare number_to_string.simps [simp del]

text \<open>Reading a string of decimal digits back as a number, from the left.\<close>

definition digit_value :: "char \<Rightarrow> nat" where
  "digit_value c = of_char c - 48"

fun decimal_value :: "nat \<Rightarrow> string \<Rightarrow> nat" where
  "decimal_value acc [] = acc"
| "decimal_value acc (c # cs) = decimal_value (10 * acc + digit_value c) cs"

subsection \<open>\<^verbatim>\<open>ensureAddress\<close>\<close>

text \<open>
  The three shapes of \<^verbatim>\<open>server.address()\<close>, of type
  \<^verbatim>\<open>string | AddressInfo | null\<close>.
\<close>

record AddressInfo =
  address :: string
  family :: string
  port :: nat

datatype server_address = AddrNull | AddrString string | AddrInfo AddressInfo

text \<open>The error thrown at line 74: \<^verbatim>\<open>new Error("server has no address")\<close>.\<close>

definition NoAddressError :: js_error where
  "NoAddressError = \<lparr>message = Some ''server has no address'', code = None\<rparr>"

text \<open>
  \<^verbatim>\<open>!addr\<close> holds of \<^verbatim>\<open>null\<close> and of the empty string; an object is always truthy.
\<close>

fun addr_falsy :: "server_address \<Rightarrow> bool" where
  "addr_falsy AddrNull = True"
| "addr_falsy (AddrString s) = (s = [])"
| "addr_falsy (AddrInfo a) = False"

definition ensureAddress :: "server_address \<Rightarrow> js_error + string" where
  "ensureAddress addr =
     (if addr_falsy addr then Inl NoAddressError
      else case addr of
             AddrInfo a \<Rightarrow> Inr (''http://'' @ address a @ '':'' @ number_to_string (port a))
           | AddrString s \<Rightarrow> Inr s
           | AddrNull \<Rightarrow> Inl NoAddressError)"

subsection \<open>The host passed to \<^verbatim>\<open>server.listen\<close>\<close>

text \<open>
  \<^verbatim>\<open>host.replace(/^\[|\]$/g, "")\<close>: a global replacement scanning the string from the
  left. Without the \<^verbatim>\<open>m\<close> flag \<^verbatim>\<open>^\<close> matches at the start of the input only and
  \<^verbatim>\<open>$\<close> at its end only. The flag of \<open>replace_scan\<close> says whether the scan is at the
  start of the input.
\<close>

fun replace_scan :: "bool \<Rightarrow> string \<Rightarrow> string" where
  "replace_scan at_start [] = []"
| "replace_scan at_start (c # cs) =
     (if at_start \<and> c = CHR ''['' then replace_scan False cs
      else if c = CHR '']'' \<and> cs = [] then replace_scan False cs
      else c # replace_scan False cs)"

definition replace_brackets :: "string \<Rightarrow> string" where
  "replace_brackets h = replace_scan True h"

text \<open>
  The specification's wording of the same step: the host with a leading \<^verbatim>\<open>[\<close> and a
  trailing \<^verbatim>\<open>]\<close> stripped when present.
\<close>

definition strip_leading_bracket :: "string \<Rightarrow> string" where
  "strip_leading_bracket h = (case h of [] \<Rightarrow> [] | c # cs \<Rightarrow> if c = CHR ''['' then cs else h)"

definition strip_trailing_bracket :: "string \<Rightarrow> string" where
  "strip_trailing_bracket h = (if h \<noteq> [] \<and> last h = CHR '']'' then butlast h else h)"

definition spec_strip_brackets :: "string \<Rightarrow> string" where
  "spec_strip_brackets h = strip_trailing_bracket (strip_leading_bracket h)"

subsection \<open>The server, the promise and the log\<close>

text \<open>
  The listeners that this file registers on the server: \<^verbatim>\<open>reject\<close> (line 16) and the
  logging arrow function (line 21) on \<^verbatim>\<open>"error"\<close>, and \<^verbatim>\<open>onListen\<close>, which
  \<^verbatim>\<open>server.listen\<close> registers once on \<^verbatim>\<open>"listening"\<close>.
\<close>

datatype error_handler = Reject | LogHttpServerError

datatype listening_handler = OnListen

datatype outcome = Pending | Resolved | Rejected js_error

datatype listen_call = ListenPath string | ListenPort nat string

text \<open>
  The two ways of logging: \<^verbatim>\<open>logger.error(x)\<close>, whose argument is a string or the
  caught value itself, and \<^verbatim>\<open>util.logError(logger, prefix, err)\<close>. Both belong to
  other modules, so a call is recorded with its arguments.
\<close>

datatype log_arg = ArgString string | ArgError js_error

datatype log_entry = LoggerError log_arg | UtilLogError string js_error

record state =
  error_listeners :: "error_handler list"
  listening_listeners :: "listening_handler list"
  listen_calls :: "listen_call list"
  promise :: outcome
  settlements :: "outcome list"
  logged :: "log_entry list"
  uncaught :: "js_error list"
  thrown :: "js_error list"

text \<open>
  \<open>uncaught\<close> holds the errors that \<^verbatim>\<open>emit\<close> throws for want of a listener, \<open>thrown\<close>
  those thrown inside the executor of line 15. The executor is an \<^verbatim>\<open>async\<close> function:
  what it throws rejects its own promise, which nobody handles, and does not touch the
  promise that \<^verbatim>\<open>listen\<close> returns.

  A server that \<^verbatim>\<open>createApp\<close> has just made, and the pending promise of line 15:
\<close>

definition new_server :: state where
  "new_server = \<lparr>error_listeners = [], listening_listeners = [], listen_calls = [],
     promise = Pending, settlements = [], logged = [], uncaught = [], thrown = []\<rparr>"

text \<open>
  \<^verbatim>\<open>resolve()\<close> and \<^verbatim>\<open>reject(err)\<close> of a JavaScript promise: the first call settles it,
  a later call does nothing. \<open>settlements\<close> keeps every transition out of \<open>Pending\<close>.
\<close>

definition resolve :: "state \<Rightarrow> state" where
  "resolve s =
     (if promise s = Pending
      then s\<lparr>promise := Resolved, settlements := settlements s @ [Resolved]\<rparr>
      else s)"

definition reject :: "js_error \<Rightarrow> state \<Rightarrow> state" where
  "reject err s =
     (if promise s = Pending
      then s\<lparr>promise := Rejected err, settlements := settlements s @ [Rejected err]\<rparr>
      else s)"

definition logger_error :: "log_arg \<Rightarrow> state \<Rightarrow> state" where
  "logger_error a s = s\<lparr>logged := logged s @ [LoggerError a]\<rparr>"

definition util_logError :: "string \<Rightarrow> js_error \<Rightarrow> state \<Rightarrow> state" where
  "util_logError prefix err s = s\<lparr>logged := logged s @ [UtilLogError prefix err]\<rparr>"

text \<open>
  \<^verbatim>\<open>server.on("error", h)\<close> appends a listener; \<^verbatim>\<open>server.off("error", h)\<close> removes the
  instance of \<^verbatim>\<open>h\<close> added last.
\<close>

definition server_on_error :: "error_handler \<Rightarrow> state \<Rightarrow> state" where
  "server_on_error h s = s\<lparr>error_listeners := error_listeners s @ [h]\<rparr>"

definition server_off_error :: "error_handler \<Rightarrow> state \<Rightarrow> state" where
  "server_off_error h s = s\<lparr>error_listeners := rev (remove1 h (rev (error_listeners s)))\<rparr>"

text \<open>
  Node checks the port of \<^verbatim>\<open>server.listen(port, host, cb)\<close> at once: a port that is not
  below 65536 makes the call throw a \<^verbatim>\<open>RangeError\<close> with the code
  \<^verbatim>\<open>ERR_SOCKET_BAD_PORT\<close>, and no bind is started.
\<close>

definition ERR_SOCKET_BAD_PORT :: "nat \<Rightarrow> js_error" where
  "ERR_SOCKET_BAD_PORT n =
     \<lparr>message = Some (''options.port should be >= 0 and < 65536. Received type number (''
                        @ number_to_string n @ '').''),
      code = Some ''ERR_SOCKET_BAD_PORT''\<rparr>"

fun validatePort :: "listen_call \<Rightarrow> js_error list" where
  "validatePort (ListenPath p) = []"
| "validatePort (ListenPort n h) = (if n < 65536 then [] else [ERR_SOCKET_BAD_PORT n])"

text \<open>
  \<^verbatim>\<open>server.listen(..., cb)\<close>: the call is recorded, \<^verbatim>\<open>cb\<close> is registered once on
  \<^verbatim>\<open>"listening"\<close>, and then the port is checked. The call is the last statement of the
  executor on both of its paths, so an error that it throws ends the executor and
  skips nothing. What a bind that was started does reaches the program as events.
\<close>

definition server_listen :: "listen_call \<Rightarrow> listening_handler \<Rightarrow> state \<Rightarrow> state" where
  "server_listen c cb s =
     s\<lparr>listen_calls := listen_calls s @ [c],
       listening_listeners := listening_listeners s @ [cb],
       thrown := thrown s @ validatePort c\<rparr>"

subsection \<open>\<^verbatim>\<open>handleServerError\<close> and \<^verbatim>\<open>handleArgsSocketCatchError\<close>\<close>

definition handleServerError ::
  "bool \<Rightarrow> js_error \<Rightarrow> (js_error \<Rightarrow> state \<Rightarrow> state) \<Rightarrow> state \<Rightarrow> state" where
  "handleServerError resolved err reject_cb s =
     (if \<not> resolved then reject_cb err s
      else util_logError ''http server error'' err s)"

text \<open>
  \<^verbatim>\<open>isNodeJSErrnoException\<close> is imported from \<^verbatim>\<open>./util\<close>; it is a parameter here.
\<close>

definition handleArgsSocketCatchError ::
  "(js_error \<Rightarrow> bool) \<Rightarrow> js_error \<Rightarrow> state \<Rightarrow> state" where
  "handleArgsSocketCatchError isNodeJSErrnoException error s =
     (if \<not> isNodeJSErrnoException error \<or> code error \<noteq> Some ''ENOENT''
      then logger_error
             (if truthy (message error) then ArgString (the (message error)) else ArgError error) s
      else s)"

subsection \<open>\<^verbatim>\<open>listen\<close>\<close>

text \<open>
  \<^verbatim>\<open>ListenOptions\<close> picks \<^verbatim>\<open>socket\<close>, \<^verbatim>\<open>port\<close> and \<^verbatim>\<open>host\<close> out of
  \<^verbatim>\<open>DefaultedArgs\<close>; \<^verbatim>\<open>DefaultedArgs\<close> extends it with the two fields that
  \<^verbatim>\<open>createApp\<close> reads (\<open>cert\<close> is \<^verbatim>\<open>args.cert.value\<close> when \<^verbatim>\<open>args.cert\<close> is there).
\<close>

record ListenOptions =
  host :: string
  listen_port :: nat
  socket :: "string option"

record DefaultedArgs = ListenOptions +
  cert :: "string option"
  cert_key :: "string option"

text \<open>
  What the surroundings answer: the result of \<^verbatim>\<open>fs.readFile\<close> and of \<^verbatim>\<open>fs.unlink\<close> on
  a path (\<open>None\<close> when the removal succeeds), \<^verbatim>\<open>isNodeJSErrnoException\<close>, and the
  events that the server emits after \<^verbatim>\<open>server.listen\<close> was called.
\<close>

datatype event = EmitError js_error | EmitListening

record env =
  readFile :: "string \<Rightarrow> js_error + string"
  unlink :: "string \<Rightarrow> js_error option"
  isNodeJSErrnoException :: "js_error \<Rightarrow> bool"
  server_events :: "event list"

text \<open>The body of \<^verbatim>\<open>onListen\<close>, lines 18 to 24.\<close>

definition onListen :: "state \<Rightarrow> state" where
  "onListen s =
     resolve (server_on_error LogHttpServerError (server_off_error Reject s))"

text \<open>
  The executor of the promise, lines 16 to 37, run to its end. Its only suspension
  is the \<^verbatim>\<open>await\<close> of \<^verbatim>\<open>fs.unlink\<close>, before \<^verbatim>\<open>server.listen\<close> is called: the server
  is not listening yet and is taken to emit nothing until the call.
\<close>

definition listen :: "env \<Rightarrow> 'a ListenOptions_scheme \<Rightarrow> state \<Rightarrow> state" where
  "listen e opts server =
     (let s = server_on_error Reject server in
      if truthy (socket opts) then
        (let p = the (socket opts);
             s' = (case unlink e p of
                     None \<Rightarrow> s
                   | Some error \<Rightarrow> handleArgsSocketCatchError (isNodeJSErrnoException e) error s)
         in server_listen (ListenPath p) OnListen s')
      else
        server_listen (ListenPort (listen_port opts) (replace_brackets (host opts))) OnListen s)"

subsection \<open>Events\<close>

fun call_error_handler :: "js_error \<Rightarrow> error_handler \<Rightarrow> state \<Rightarrow> state" where
  "call_error_handler err Reject s = reject err s"
| "call_error_handler err LogHttpServerError s = util_logError ''http server error'' err s"

fun call_listening_handler :: "listening_handler \<Rightarrow> state \<Rightarrow> state" where
  "call_listening_handler OnListen s = onListen s"

text \<open>
  \<^verbatim>\<open>emit\<close> calls the listeners registered when it starts, in the order of their
  registration. An \<^verbatim>\<open>"error"\<close> with no listener is thrown by \<^verbatim>\<open>emit\<close>; a listener
  registered with \<^verbatim>\<open>once\<close> is removed when it is called.
\<close>

definition emit_error :: "js_error \<Rightarrow> state \<Rightarrow> state" where
  "emit_error err s =
     (if error_listeners s = [] then s\<lparr>uncaught := uncaught s @ [err]\<rparr>
      else fold (call_error_handler err) (error_listeners s) s)"

definition emit_listening :: "state \<Rightarrow> state" where
  "emit_listening s =
     fold call_listening_handler (listening_listeners s) (s\<lparr>listening_listeners := []\<rparr>)"

fun step :: "event \<Rightarrow> state \<Rightarrow> state" where
  "step (EmitError err) s = emit_error err s"
| "step EmitListening s = emit_listening s"

fun deliver :: "event list \<Rightarrow> state \<Rightarrow> state" where
  "deliver [] s = s"
| "deliver (ev # evs) s = deliver evs (step ev s)"

fun errors_of :: "event list \<Rightarrow> js_error list" where
  "errors_of [] = []"
| "errors_of (EmitError err # evs) = err # errors_of evs"
| "errors_of (EmitListening # evs) = errors_of evs"

text \<open>The bind attempt as a whole: the executor, then the events of the server.\<close>

definition listen_run :: "env \<Rightarrow> 'a ListenOptions_scheme \<Rightarrow> state" where
  "listen_run e opts = deliver (server_events e) (listen e opts new_server)"

subsection \<open>\<^verbatim>\<open>createApp\<close>\<close>

text \<open>
  An Express application is known by the order of the \<^verbatim>\<open>express()\<close> call that made it
  and by the middleware given to \<^verbatim>\<open>use\<close>.
\<close>

datatype middleware = Compression

datatype express = Express nat "middleware list"

text \<open>
  The value of \<^verbatim>\<open>args["cert-key"] && (await fs.readFile(args["cert-key"]))\<close>: the falsy
  left operand itself, or the content of the file.
\<close>

datatype key_option = KeyUndefined | KeyString string | KeyBuffer string

datatype server_handle =
  HttpServer express
| HttpolyglotServer string key_option express

datatype app_result =
  Returns express express server_handle
| Rejects js_error
| NeverSettles

text \<open>
  Lines 49 to 57. The result is the list of paths given to \<^verbatim>\<open>fs.readFile\<close>, in
  order, and the server handle, or the error of the read that failed.
\<close>

definition create_server ::
  "env \<Rightarrow> DefaultedArgs \<Rightarrow> express \<Rightarrow> string list \<times> (js_error + server_handle)" where
  "create_server e args app =
     (case cert args of
        None \<Rightarrow> ([], Inr (HttpServer app))
      | Some cert_value \<Rightarrow>
          (case readFile e cert_value of
             Inl err \<Rightarrow> ([cert_value], Inl err)
           | Inr cert_buf \<Rightarrow>
               (case cert_key args of
                  None \<Rightarrow> ([cert_value], Inr (HttpolyglotServer cert_buf KeyUndefined app))
                | Some k \<Rightarrow>
                    if k = [] then
                      ([cert_value], Inr (HttpolyglotServer cert_buf (KeyString k) app))
                    else
                      (case readFile e k of
                         Inl err \<Rightarrow> ([cert_value, k], Inl err)
                       | Inr key_buf \<Rightarrow>
                           ([cert_value, k],
                            Inr (HttpolyglotServer cert_buf (KeyBuffer key_buf) app))))))"

text \<open>
  What a run of \<^verbatim>\<open>createApp\<close> did: the files read, the applications made by
  \<^verbatim>\<open>express()\<close>, the server after the bind attempt (when there was one), the calls of
  \<^verbatim>\<open>handleUpgrade\<close>, and how the returned promise ended.
\<close>

record app_run =
  file_reads :: "string list"
  apps :: "express list"
  server :: "state option"
  upgrades :: "(express \<times> server_handle) list"
  result :: app_result

definition createApp :: "env \<Rightarrow> DefaultedArgs \<Rightarrow> app_run" where
  "createApp e args =
     (let app = Express 0 [Compression] in
      case create_server e args app of
        (reads, Inl err) \<Rightarrow>
          \<lparr>file_reads = reads, apps = [app], server = None, upgrades = [],
           result = Rejects err\<rparr>
      | (reads, Inr handle) \<Rightarrow>
          (let s = listen_run e args in
           case promise s of
             Rejected err \<Rightarrow>
               \<lparr>file_reads = reads, apps = [app], server = Some s, upgrades = [],
                result = Rejects err\<rparr>
           | Pending \<Rightarrow>
               \<lparr>file_reads = reads, apps = [app], server = Some s, upgrades = [],
                result = NeverSettles\<rparr>
           | Resolved \<Rightarrow>
               (let wsApp = Express 1 [] in
                \<lparr>file_reads = reads, apps = [app, wsApp], server = Some s,
                 upgrades = [(wsApp, handle)], result = Returns app wsApp handle\<rparr>)))"

subsection \<open>Sample surroundings\<close>

text \<open>
  Concrete errors, file systems, arguments and event sequences, on which the
  definitions above are run.
\<close>

definition addr_in_use :: js_error where
  "addr_in_use = \<lparr>message = Some ''listen EADDRINUSE: address already in use'',
     code = Some ''EADDRINUSE''\<rparr>"

definition conn_reset :: js_error where
  "conn_reset = \<lparr>message = Some ''read ECONNRESET'', code = Some ''ECONNRESET''\<rparr>"

definition no_entry :: js_error where
  "no_entry = \<lparr>message = Some ''ENOENT: no such file or directory, unlink'',
     code = Some ''ENOENT''\<rparr>"

definition not_permitted :: js_error where
  "not_permitted = \<lparr>message = Some ''EPERM: operation not permitted, unlink'',
     code = Some ''EPERM''\<rparr>"

definition has_code :: "js_error \<Rightarrow> bool" where
  "has_code err = (code err \<noteq> None)"

definition read_pem :: "string \<Rightarrow> js_error + string" where
  "read_pem p = Inr (''PEM '' @ p)"

definition unlink_ok :: "string \<Rightarrow> js_error option" where
  "unlink_ok p = None"

definition unlink_missing :: "string \<Rightarrow> js_error option" where
  "unlink_missing p = Some no_entry"

definition unlink_denied :: "string \<Rightarrow> js_error option" where
  "unlink_denied p = Some not_permitted"

definition env_port_taken :: env where
  "env_port_taken = \<lparr>readFile = read_pem, unlink = unlink_ok,
     isNodeJSErrnoException = has_code,
     server_events = [EmitError addr_in_use, EmitListening, EmitError conn_reset]\<rparr>"

definition env_bound :: env where
  "env_bound = \<lparr>readFile = read_pem, unlink = unlink_ok,
     isNodeJSErrnoException = has_code,
     server_events = [EmitListening, EmitError conn_reset, EmitError addr_in_use]\<rparr>"

definition env_socket_missing :: env where
  "env_socket_missing = \<lparr>readFile = read_pem, unlink = unlink_missing,
     isNodeJSErrnoException = has_code, server_events = [EmitListening]\<rparr>"

definition env_socket_denied :: env where
  "env_socket_denied = \<lparr>readFile = read_pem, unlink = unlink_denied,
     isNodeJSErrnoException = has_code, server_events = [EmitListening]\<rparr>"

definition args_plain :: DefaultedArgs where
  "args_plain = \<lparr>host = ''[::1]'', listen_port = 8080, socket = None,
     cert = None, cert_key = None\<rparr>"

definition args_tls :: DefaultedArgs where
  "args_tls = \<lparr>host = ''0.0.0.0'', listen_port = 8443, socket = None,
     cert = Some ''/etc/ssl/cert.pem'', cert_key = Some ''/etc/ssl/key.pem''\<rparr>"

definition env_silent :: env where
  "env_silent = \<lparr>readFile = read_pem, unlink = unlink_ok,
     isNodeJSErrnoException = has_code, server_events = []\<rparr>"

definition args_bad_port :: DefaultedArgs where
  "args_bad_port = \<lparr>host = ''localhost'', listen_port = 65536, socket = None,
     cert = None, cert_key = None\<rparr>"

definition args_socket :: DefaultedArgs where
  "args_socket = \<lparr>host = ''localhost'', listen_port = 8080, socket = Some ''/tmp/app.sock'',
     cert = None, cert_key = None\<rparr>"

section \<open>Properties\<close>

subsection \<open>Auxiliary facts\<close>

lemma replace_scan_False: "replace_scan False cs = strip_trailing_bracket cs"
  by (induction cs) (auto simp: strip_trailing_bracket_def)

lemma replace_brackets_spec: "replace_brackets h = spec_strip_brackets h"
  by (cases h)
    (auto simp: replace_brackets_def spec_strip_brackets_def strip_leading_bracket_def
      replace_scan_False strip_trailing_bracket_def)

lemma listen_registers:
  "error_listeners (listen e opts new_server) = [Reject]"
  "listening_listeners (listen e opts new_server) = [OnListen]"
  "promise (listen e opts new_server) = Pending"
  "settlements (listen e opts new_server) = []"
  "uncaught (listen e opts new_server) = []"
  by (simp_all add: listen_def Let_def server_on_error_def server_listen_def
      handleArgsSocketCatchError_def logger_error_def new_server_def split: option.splits)

lemma call_error_handler_settled:
  "promise s \<noteq> Pending \<Longrightarrow>
     promise (call_error_handler err h s) = promise s \<and>
     settlements (call_error_handler err h s) = settlements s"
  by (cases h) (simp_all add: reject_def util_logError_def)

lemma fold_error_handlers_settled:
  "promise s \<noteq> Pending \<Longrightarrow>
     promise (fold (call_error_handler err) hs s) = promise s \<and>
     settlements (fold (call_error_handler err) hs s) = settlements s"
proof (induction hs arbitrary: s)
  case Nil
  show ?case by simp
next
  case (Cons h hs)
  from Cons.prems have one:
    "promise (call_error_handler err h s) = promise s"
    "settlements (call_error_handler err h s) = settlements s"
    using call_error_handler_settled by blast+
  with Cons.prems have "promise (call_error_handler err h s) \<noteq> Pending" by simp
  from Cons.IH [OF this] one show ?case by simp
qed

lemma onListen_settled:
  "promise s \<noteq> Pending \<Longrightarrow>
     promise (onListen s) = promise s \<and> settlements (onListen s) = settlements s"
  by (simp add: onListen_def resolve_def server_on_error_def server_off_error_def)

lemma fold_listening_handlers_settled:
  "promise s \<noteq> Pending \<Longrightarrow>
     promise (fold call_listening_handler hs s) = promise s \<and>
     settlements (fold call_listening_handler hs s) = settlements s"
proof (induction hs arbitrary: s)
  case Nil
  show ?case by simp
next
  case (Cons h hs)
  have h: "h = OnListen" by (cases h) simp
  from Cons.prems have one:
    "promise (onListen s) = promise s" "settlements (onListen s) = settlements s"
    using onListen_settled by blast+
  with Cons.prems have "promise (onListen s) \<noteq> Pending" by simp
  from Cons.IH [OF this] one h show ?case by simp
qed

lemma step_settled:
  "promise s \<noteq> Pending \<Longrightarrow>
     promise (step ev s) = promise s \<and> settlements (step ev s) = settlements s"
proof (cases ev)
  case (EmitError err)
  assume "promise s \<noteq> Pending"
  from fold_error_handlers_settled [OF this] EmitError show ?thesis
    by (simp add: emit_error_def)
next
  case EmitListening
  assume "promise s \<noteq> Pending"
  then have "promise (s\<lparr>listening_listeners := []\<rparr>) \<noteq> Pending" by simp
  from fold_listening_handlers_settled [OF this] EmitListening show ?thesis
    by (simp add: emit_listening_def)
qed

text \<open>A settled promise stays as it is, whatever the server emits.\<close>

lemma deliver_settled:
  "promise s \<noteq> Pending \<Longrightarrow>
     promise (deliver evs s) = promise s \<and> settlements (deliver evs s) = settlements s"
proof (induction evs arbitrary: s)
  case Nil
  show ?case by simp
next
  case (Cons ev evs)
  from step_settled [OF Cons.prems] have one:
    "promise (step ev s) = promise s" "settlements (step ev s) = settlements s"
    by blast+
  with Cons.prems have "promise (step ev s) \<noteq> Pending" by simp
  from Cons.IH [OF this] one show ?case by simp
qed

text \<open>
  Once the permanent observer is the only listener, an event changes the log and
  nothing else.
\<close>

lemma step_bound:
  assumes "error_listeners s = [LogHttpServerError]" and "listening_listeners s = []"
  shows "error_listeners (step ev s) = [LogHttpServerError]"
    and "listening_listeners (step ev s) = []"
    and "promise (step ev s) = promise s"
    and "settlements (step ev s) = settlements s"
    and "uncaught (step ev s) = uncaught s"
    and "listen_calls (step ev s) = listen_calls s"
    and "logged (step ev s) =
           logged s @ map (UtilLogError ''http server error'') (errors_of [ev])"
  using assms
  by (cases ev; simp add: emit_error_def emit_listening_def util_logError_def)+

lemma deliver_bound:
  "error_listeners s = [LogHttpServerError] \<Longrightarrow> listening_listeners s = [] \<Longrightarrow>
     promise (deliver evs s) = promise s \<and>
     settlements (deliver evs s) = settlements s \<and>
     uncaught (deliver evs s) = uncaught s \<and>
     logged (deliver evs s) =
       logged s @ map (UtilLogError ''http server error'') (errors_of evs)"
proof (induction evs arbitrary: s)
  case Nil
  show ?case by simp
next
  case (Cons ev evs)
  note one = step_bound [OF Cons.prems, of ev]
  from Cons.IH [OF one(1) one(2)] one(3-7) show ?case
    by (cases ev) simp_all
qed

lemma step_listen_calls: "listen_calls (step ev s) = listen_calls s"
proof (cases ev)
  case (EmitError err)
  have "listen_calls (fold (call_error_handler err) hs t) = listen_calls t" for hs t
  proof (induction hs arbitrary: t)
    case Nil
    show ?case by simp
  next
    case (Cons h hs)
    then show ?case by (cases h) (simp_all add: reject_def util_logError_def)
  qed
  with EmitError show ?thesis by (simp add: emit_error_def)
next
  case EmitListening
  have "listen_calls (fold call_listening_handler hs t) = listen_calls t" for hs t
  proof (induction hs arbitrary: t)
    case Nil
    show ?case by simp
  next
    case (Cons h hs)
    then show ?case
      by (cases h)
        (simp add: onListen_def resolve_def server_on_error_def server_off_error_def)
  qed
  with EmitListening show ?thesis by (simp add: emit_listening_def)
qed

lemma deliver_listen_calls: "listen_calls (deliver evs s) = listen_calls s"
  by (induction evs arbitrary: s) (simp_all add: step_listen_calls)

lemma number_to_string_8080: "number_to_string 8080 = ''8080''"
  by (simp add: number_to_string.simps digit_def)

lemma digit_value_digit: "d < 10 \<Longrightarrow> digit_value (digit d) = d"
proof -
  assume "d < 10"
  then have "d \<in> {0, 1, 2, 3, 4, 5, 6, 7, 8, 9}" by auto
  then show ?thesis by (auto simp: digit_def digit_value_def)
qed

lemma decimal_value_append:
  "decimal_value acc (xs @ [c]) = 10 * decimal_value acc xs + digit_value c"
  by (induction xs arbitrary: acc) simp_all

text \<open>The digits printed for a number read back as that number.\<close>

lemma decimal_value_number_to_string: "decimal_value 0 (number_to_string n) = n"
proof (induction n rule: number_to_string.induct)
  case (1 n)
  show ?case
  proof (cases "n < 10")
    case True
    then show ?thesis by (simp add: number_to_string.simps [of n] digit_value_digit)
  next
    case False
    with 1 have "decimal_value 0 (number_to_string (n div 10)) = n div 10" by simp
    with False show ?thesis
      by (simp add: number_to_string.simps [of n] decimal_value_append digit_value_digit)
  qed
qed

lemma listen_then_error:
  "promise (emit_error err (listen e opts new_server)) = Rejected err"
  "settlements (emit_error err (listen e opts new_server)) = [Rejected err]"
  by (simp_all add: emit_error_def listen_registers reject_def)

lemma listen_then_listening:
  "error_listeners (emit_listening (listen e opts new_server)) = [LogHttpServerError]"
  "listening_listeners (emit_listening (listen e opts new_server)) = []"
  "promise (emit_listening (listen e opts new_server)) = Resolved"
  "settlements (emit_listening (listen e opts new_server)) = [Resolved]"
  "uncaught (emit_listening (listen e opts new_server)) = []"
  "logged (emit_listening (listen e opts new_server)) = logged (listen e opts new_server)"
  by (simp_all add: emit_listening_def listen_registers onListen_def resolve_def
      server_on_error_def server_off_error_def)

lemma listen_run_listen_calls:
  "listen_calls (listen_run e opts) = listen_calls (listen e opts new_server)"
  by (simp add: listen_run_def deliver_listen_calls)

lemma listen_one_call: "length (listen_calls (listen e opts new_server)) = 1"
  by (simp add: listen_def Let_def server_on_error_def server_listen_def
      handleArgsSocketCatchError_def logger_error_def new_server_def split: option.splits)

text \<open>A path that \<^verbatim>\<open>listen\<close> binds is a truthy \<^verbatim>\<open>socket\<close>: it is not empty.\<close>

lemma bound_path_not_empty:
  "ListenPath p \<in> set (listen_calls (listen_run e opts)) \<Longrightarrow> p \<noteq> []"
  by (cases "socket opts")
    (auto simp: listen_run_listen_calls listen_def Let_def server_on_error_def
      server_listen_def handleArgsSocketCatchError_def logger_error_def new_server_def
      split: option.splits if_splits)

text \<open>
  When the handle was built and the promise of \<^verbatim>\<open>listen\<close> is rejected, \<^verbatim>\<open>createApp\<close>
  rejects with the same error; whenever that promise is not resolved, no second
  application is made and \<^verbatim>\<open>handleUpgrade\<close> is not called.
\<close>

lemma createApp_rejects_with_listen:
  assumes "snd (create_server e args (Express 0 [Compression])) = Inr h"
    and "promise (listen_run e args) = Rejected err"
  shows "result (createApp e args) = Rejects err"
    and "upgrades (createApp e args) = []"
    and "apps (createApp e args) = [Express 0 [Compression]]"
  using assms
  by (cases "create_server e args (Express 0 [Compression])"; simp add: createApp_def Let_def)+

lemma createApp_no_upgrade_unless_resolved:
  "promise (listen_run e args) \<noteq> Resolved \<Longrightarrow> upgrades (createApp e args) = []"
  by (cases "create_server e args (Express 0 [Compression])")
    (auto simp: createApp_def Let_def split: sum.splits outcome.splits)

lemmas model_defs =
  listen_run_def listen_def Let_def server_on_error_def server_off_error_def
  server_listen_def handleArgsSocketCatchError_def logger_error_def util_logError_def
  new_server_def emit_error_def emit_listening_def onListen_def resolve_def reject_def
  createApp_def create_server_def replace_brackets_def

subsection \<open>The bind and its errors\<close>

text \<open>
  C1. When the first thing the server emits after \<^verbatim>\<open>server.listen\<close> is an error, so that
  the error comes before any \<^verbatim>\<open>"listening"\<close>, the promise of \<^verbatim>\<open>listen\<close> is rejected with
  that very error, and this rejection is its only settlement, whatever the server emits
  later. \<^verbatim>\<open>handleServerError\<close> with \<^verbatim>\<open>resolved = false\<close> hands the error to \<^verbatim>\<open>reject\<close>.
\<close>

theorem listen_rejects_once:
  assumes "server_events e = EmitError err # evs"
  shows "promise (listen_run e opts) = Rejected err \<and>
         settlements (listen_run e opts) = [Rejected err] \<and>
         handleServerError False err reject s = reject err s"
proof -
  let ?s = "emit_error err (listen e opts new_server)"
  have "promise ?s \<noteq> Pending" by (simp add: listen_then_error)
  from deliver_settled [OF this, of evs] assms show ?thesis
    by (simp add: listen_run_def listen_then_error handleServerError_def)
qed

theorem listen_rejects_once_witness:
  "server_events env_port_taken =
     EmitError addr_in_use # [EmitListening, EmitError conn_reset] \<and>
   promise (listen_run env_port_taken args_plain) = Rejected addr_in_use \<and>
   settlements (listen_run env_port_taken args_plain) = [Rejected addr_in_use]"
  using listen_rejects_once
    [of env_port_taken addr_in_use "[EmitListening, EmitError conn_reset]" args_plain]
  by (simp add: env_port_taken_def)

text \<open>
  C2. When \<^verbatim>\<open>"listening"\<close> is the first event, the promise of \<^verbatim>\<open>listen\<close> is resolved, and
  every error that the server emits afterwards is logged through \<^verbatim>\<open>util.logError\<close> and
  does nothing else: the promise stays resolved, with one settlement, and \<^verbatim>\<open>emit\<close> throws
  nothing. \<^verbatim>\<open>handleServerError\<close> with \<^verbatim>\<open>resolved = true\<close> logs and does not call
  \<^verbatim>\<open>reject\<close>.
\<close>

theorem listen_errors_after_bind_logged:
  assumes "server_events e = EmitListening # evs"
  shows "promise (listen_run e opts) = Resolved \<and>
         settlements (listen_run e opts) = [Resolved] \<and>
         uncaught (listen_run e opts) = [] \<and>
         logged (listen_run e opts) =
           logged (listen e opts new_server) @
           map (UtilLogError ''http server error'') (errors_of evs) \<and>
         handleServerError True err reject_cb s = util_logError ''http server error'' err s"
proof -
  let ?s = "emit_listening (listen e opts new_server)"
  have "error_listeners ?s = [LogHttpServerError]" and "listening_listeners ?s = []"
    by (simp_all add: listen_then_listening)
  from deliver_bound [OF this, of evs] assms show ?thesis
    by (simp add: listen_run_def listen_then_listening handleServerError_def)
qed

theorem listen_errors_after_bind_logged_witness:
  "server_events env_bound = EmitListening # [EmitError conn_reset, EmitError addr_in_use] \<and>
   promise (listen_run env_bound args_plain) = Resolved \<and>
   settlements (listen_run env_bound args_plain) = [Resolved] \<and>
   uncaught (listen_run env_bound args_plain) = [] \<and>
   logged (listen_run env_bound args_plain) =
     [UtilLogError ''http server error'' conn_reset,
      UtilLogError ''http server error'' addr_in_use]"
  using listen_errors_after_bind_logged
    [of env_bound "[EmitError conn_reset, EmitError addr_in_use]" args_plain]
  by (simp add: env_bound_def args_plain_def listen_def Let_def server_on_error_def
      server_listen_def new_server_def)

text \<open>
  C3. On a socket path, when \<^verbatim>\<open>fs.unlink\<close> fails with an errno exception whose code is
  \<^verbatim>\<open>ENOENT\<close>, nothing is logged; when it fails in any other way, \<^verbatim>\<open>logger.error\<close> is
  called exactly once (with the message of the error, or with the error when it has
  none). In both cases \<^verbatim>\<open>server.listen\<close> is then called on the path.
\<close>

theorem socket_cleanup_logging:
  assumes "socket opts = Some p" and "p \<noteq> []" and "unlink e p = Some error"
  shows "(isNodeJSErrnoException e error \<and> code error = Some ''ENOENT'' \<longrightarrow>
            logged (listen e opts new_server) = []) \<and>
         (\<not> (isNodeJSErrnoException e error \<and> code error = Some ''ENOENT'') \<longrightarrow>
            logged (listen e opts new_server) =
              [LoggerError (if truthy (message error) then ArgString (the (message error))
                            else ArgError error)]) \<and>
         listen_calls (listen e opts new_server) = [ListenPath p]"
  using assms
  by (auto simp: listen_def Let_def server_on_error_def server_listen_def
      handleArgsSocketCatchError_def logger_error_def new_server_def)

theorem socket_cleanup_logging_witness:
  "logged (listen env_socket_missing args_socket new_server) = [] \<and>
   listen_calls (listen env_socket_missing args_socket new_server) =
     [ListenPath ''/tmp/app.sock''] \<and>
   logged (listen env_socket_denied args_socket new_server) =
     [LoggerError (ArgString ''EPERM: operation not permitted, unlink'')] \<and>
   listen_calls (listen env_socket_denied args_socket new_server) =
     [ListenPath ''/tmp/app.sock'']"
  using socket_cleanup_logging [of args_socket "''/tmp/app.sock''" env_socket_missing no_entry]
    socket_cleanup_logging [of args_socket "''/tmp/app.sock''" env_socket_denied not_permitted]
  by (simp add: args_socket_def env_socket_missing_def env_socket_denied_def
      unlink_missing_def unlink_denied_def no_entry_def not_permitted_def has_code_def)

text \<open>
  C9. Without a socket, the host given to \<^verbatim>\<open>server.listen\<close> is the configured host with
  a leading \<^verbatim>\<open>[\<close> and a trailing \<^verbatim>\<open>]\<close> stripped when present, and the port is the
  configured port; the host \<^verbatim>\<open>[::1]\<close> is bound as \<^verbatim>\<open>::1\<close>.
\<close>

theorem listen_host_brackets_stripped:
  assumes "\<not> truthy (socket opts)"
  shows "listen_calls (listen e opts new_server) =
           [ListenPort (listen_port opts) (spec_strip_brackets (host opts))] \<and>
         (host opts = ''[::1]'' \<longrightarrow>
            listen_calls (listen e opts new_server) = [ListenPort (listen_port opts) ''::1''])"
proof -
  have "listen_calls (listen e opts new_server) =
          [ListenPort (listen_port opts) (replace_brackets (host opts))]"
    using assms by (simp add: listen_def Let_def server_on_error_def server_listen_def
        new_server_def)
  moreover have "replace_brackets ''[::1]'' = ''::1''"
    by (simp add: replace_brackets_def)
  ultimately show ?thesis
    by (auto simp: replace_brackets_spec [symmetric])
qed

theorem listen_host_brackets_stripped_witness:
  "\<not> truthy (socket args_plain) \<and> host args_plain = ''[::1]'' \<and>
   listen_calls (listen env_bound args_plain new_server) = [ListenPort 8080 ''::1'']"
  using listen_host_brackets_stripped [of args_plain env_bound]
  by (simp add: args_plain_def spec_strip_brackets_def strip_leading_bracket_def
      strip_trailing_bracket_def)

subsection \<open>\<^verbatim>\<open>createApp\<close>\<close>

text \<open>
  C4, as the code has it. \<^verbatim>\<open>createApp\<close> reads the credentials itself: when \<^verbatim>\<open>cert\<close> is
  there it reads the certificate file with \<^verbatim>\<open>fs.readFile\<close> and then, when that read
  succeeded and \<^verbatim>\<open>cert-key\<close> is a non-empty string, the key file; when \<^verbatim>\<open>cert\<close> is absent
  it reads no file. Building the handle binds nothing: a bind is attempted exactly when
  the handle was built, that is when no read failed; the server then is the new one,
  with no call of \<^verbatim>\<open>server.listen\<close> on it, as \<^verbatim>\<open>listen\<close> and the events left it, and
  \<^verbatim>\<open>server.listen\<close> was called on it exactly once.
\<close>

theorem createApp_reads_credentials:
  "file_reads (createApp e args) =
     (case cert args of
        None \<Rightarrow> []
      | Some c \<Rightarrow>
          (case readFile e c of
             Inl err \<Rightarrow> [c]
           | Inr buf \<Rightarrow> if truthy (cert_key args) then [c, the (cert_key args)] else [c])) \<and>
   (server (createApp e args) \<noteq> None \<longleftrightarrow>
      (\<exists>h. snd (create_server e args (Express 0 [Compression])) = Inr h)) \<and>
   (\<forall>s. server (createApp e args) = Some s \<longrightarrow>
      s = deliver (server_events e) (listen e args new_server) \<and>
      length (listen_calls s) = 1) \<and>
   listen_calls new_server = []"
proof -
  obtain reads r where cs: "create_server e args (Express 0 [Compression]) = (reads, r)"
    by (cases "create_server e args (Express 0 [Compression])")
  have reads: "file_reads (createApp e args) = fst (create_server e args (Express 0 [Compression]))"
    by (simp add: createApp_def Let_def split: prod.splits sum.splits outcome.splits)
  have built: "server (createApp e args) \<noteq> None \<longleftrightarrow>
      (\<exists>h. snd (create_server e args (Express 0 [Compression])) = Inr h)"
    using cs by (cases r) (simp_all add: createApp_def Let_def split: outcome.splits)
  have calls: "server (createApp e args) = None \<or>
               server (createApp e args) = Some (listen_run e args)"
    by (simp add: createApp_def Let_def split: prod.splits sum.splits outcome.splits)
  have "length (listen_calls (listen_run e args)) = 1"
    by (simp add: listen_run_listen_calls listen_one_call)
  with calls have second:
    "\<forall>s. server (createApp e args) = Some s \<longrightarrow>
       s = deliver (server_events e) (listen e args new_server) \<and> length (listen_calls s) = 1"
    by (auto simp: listen_run_def)
  have "fst (create_server e args (Express 0 [Compression])) =
     (case cert args of
        None \<Rightarrow> []
      | Some c \<Rightarrow>
          (case readFile e c of
             Inl err \<Rightarrow> [c]
           | Inr buf \<Rightarrow> if truthy (cert_key args) then [c, the (cert_key args)] else [c]))"
    by (simp add: create_server_def split: option.splits sum.splits)
  with reads built second show ?thesis by (simp add: new_server_def)
qed

theorem createApp_reads_credentials_witness:
  "file_reads (createApp env_bound args_plain) = [] \<and>
   file_reads (createApp env_port_taken args_tls) = [''/etc/ssl/cert.pem'', ''/etc/ssl/key.pem''] \<and>
   server (createApp env_port_taken args_tls) \<noteq> None \<and>
   snd (create_server env_port_taken args_tls (Express 0 [Compression])) =
     Inr (HttpolyglotServer ''PEM /etc/ssl/cert.pem'' (KeyBuffer ''PEM /etc/ssl/key.pem'')
            (Express 0 [Compression]))"
  using createApp_reads_credentials [of env_bound args_plain]
    createApp_reads_credentials [of env_port_taken args_tls]
  by (simp add: args_plain_def args_tls_def env_port_taken_def read_pem_def create_server_def)

theorem createApp_no_credential_io_counterexample:
  "file_reads (createApp env_bound args_tls) = [''/etc/ssl/cert.pem'', ''/etc/ssl/key.pem''] \<and>
   file_reads (createApp env_bound args_tls) \<noteq> []"
  by (simp add: createApp_def create_server_def Let_def args_tls_def env_bound_def read_pem_def
      split: outcome.splits)

text \<open>
  C5. Without \<^verbatim>\<open>cert\<close> the handle is a plain HTTP server on the primary application.
  With \<^verbatim>\<open>cert\<close>, a handle that is produced is the encrypted-transport server on the
  same application, configured with the content of the certificate file and with the
  key: the content of the key file when \<^verbatim>\<open>cert-key\<close> is a non-empty string, no key
  otherwise. The handle that \<^verbatim>\<open>createApp\<close> returns is this one, on the application it
  returns first.
\<close>

theorem createApp_transport_selection:
  "(cert args = None \<longrightarrow> snd (create_server e args app) = Inr (HttpServer app)) \<and>
   (cert args = Some c \<and> snd (create_server e args app) = Inr h \<longrightarrow>
      (\<exists>cert_buf key. h = HttpolyglotServer cert_buf key app \<and>
         readFile e c = Inr cert_buf \<and>
         (cert_key args = None \<longrightarrow> key = KeyUndefined) \<and>
         (cert_key args = Some [] \<longrightarrow> key = KeyString []) \<and>
         (truthy (cert_key args) \<longrightarrow>
            (\<exists>key_buf. readFile e (the (cert_key args)) = Inr key_buf \<and>
               key = KeyBuffer key_buf)))) \<and>
   (result (createApp e args) = Returns a w h' \<longrightarrow>
      a = Express 0 [Compression] \<and> snd (create_server e args a) = Inr h')"
proof (intro conjI impI)
  assume "cert args = None"
  then show "snd (create_server e args app) = Inr (HttpServer app)"
    by (simp add: create_server_def)
next
  assume "cert args = Some c \<and> snd (create_server e args app) = Inr h"
  then show "\<exists>cert_buf key. h = HttpolyglotServer cert_buf key app \<and>
         readFile e c = Inr cert_buf \<and>
         (cert_key args = None \<longrightarrow> key = KeyUndefined) \<and>
         (cert_key args = Some [] \<longrightarrow> key = KeyString []) \<and>
         (truthy (cert_key args) \<longrightarrow>
            (\<exists>key_buf. readFile e (the (cert_key args)) = Inr key_buf \<and>
               key = KeyBuffer key_buf))"
    by (auto simp: create_server_def split: sum.splits option.splits if_splits)
next
  assume r: "result (createApp e args) = Returns a w h'"
  then show "a = Express 0 [Compression]"
    by (auto simp: createApp_def Let_def split: prod.splits sum.splits outcome.splits)
  from r show "snd (create_server e args a) = Inr h'"
    by (auto simp: createApp_def Let_def split: prod.splits sum.splits outcome.splits)
qed

theorem createApp_transport_selection_witness:
  "snd (create_server env_bound args_plain (Express 0 [Compression])) =
     Inr (HttpServer (Express 0 [Compression])) \<and>
   snd (create_server env_bound args_tls (Express 0 [Compression])) =
     Inr (HttpolyglotServer ''PEM /etc/ssl/cert.pem'' (KeyBuffer ''PEM /etc/ssl/key.pem'')
            (Express 0 [Compression])) \<and>
   result (createApp env_bound args_tls) =
     Returns (Express 0 [Compression]) (Express 1 [])
       (HttpolyglotServer ''PEM /etc/ssl/cert.pem'' (KeyBuffer ''PEM /etc/ssl/key.pem'')
          (Express 0 [Compression]))"
  using createApp_transport_selection
      [of args_plain env_bound "Express 0 [Compression]" "''/etc/ssl/cert.pem''"
        "HttpServer (Express 0 [Compression])" "Express 0 [Compression]" "Express 1 []"
        "HttpServer (Express 0 [Compression])"]
    createApp_transport_selection
      [of args_tls env_bound "Express 0 [Compression]" "''/etc/ssl/cert.pem''"
        "HttpolyglotServer ''PEM /etc/ssl/cert.pem'' (KeyBuffer ''PEM /etc/ssl/key.pem'')
           (Express 0 [Compression])"
        "Express 0 [Compression]" "Express 1 []"
        "HttpolyglotServer ''PEM /etc/ssl/cert.pem'' (KeyBuffer ''PEM /etc/ssl/key.pem'')
           (Express 0 [Compression])"]
  by (simp add: model_defs args_plain_def args_tls_def env_bound_def read_pem_def unlink_ok_def)

text \<open>
  C10. The bind can fail in two ways. When the server emits an error, the promise of
  \<^verbatim>\<open>listen\<close> is rejected and \<^verbatim>\<open>createApp\<close> rejects with the same error
  (\<open>createApp_rejects_with_listen\<close> above). When the port is not below 65536,
  \<^verbatim>\<open>server.listen\<close> throws inside the \<^verbatim>\<open>async\<close> executor of line 15: no bind is started,
  so the server emits nothing, \<^verbatim>\<open>reject\<close> is never called, the promise of \<^verbatim>\<open>listen\<close>
  stays pending, and \<^verbatim>\<open>createApp\<close> never settles instead of rejecting with the failure.
  The comment of lines 94 to 96 names an invalid port among the errors that are to
  reject. No second application is made and \<^verbatim>\<open>handleUpgrade\<close> is not called.
\<close>

theorem createApp_invalid_port_never_settles:
  assumes "\<not> truthy (socket args)" and "65536 \<le> listen_port args"
    and "server_events e = []"
    and "snd (create_server e args (Express 0 [Compression])) = Inr h"
  shows "thrown (listen_run e args) = [ERR_SOCKET_BAD_PORT (listen_port args)] \<and>
         promise (listen_run e args) = Pending \<and>
         result (createApp e args) = NeverSettles \<and>
         result (createApp e args) \<noteq> Rejects (ERR_SOCKET_BAD_PORT (listen_port args)) \<and>
         upgrades (createApp e args) = [] \<and>
         apps (createApp e args) = [Express 0 [Compression]]"
proof -
  have run: "listen_run e args = listen e args new_server"
    using assms(3) by (simp add: listen_run_def)
  have t: "thrown (listen_run e args) = [ERR_SOCKET_BAD_PORT (listen_port args)]"
    using assms(1,2) unfolding run
    by (simp add: listen_def Let_def server_on_error_def server_listen_def new_server_def)
  have p: "promise (listen_run e args) = Pending"
    unfolding run by (simp add: listen_registers)
  obtain reads where "create_server e args (Express 0 [Compression]) = (reads, Inr h)"
    using assms(4) by (cases "create_server e args (Express 0 [Compression])") simp
  with p have "result (createApp e args) = NeverSettles"
    and "upgrades (createApp e args) = []"
    and "apps (createApp e args) = [Express 0 [Compression]]"
    by (simp_all add: createApp_def Let_def)
  with t p show ?thesis by simp
qed

theorem createApp_invalid_port_never_settles_witness:
  "\<not> truthy (socket args_bad_port) \<and> 65536 \<le> listen_port args_bad_port \<and>
   server_events env_silent = [] \<and>
   snd (create_server env_silent args_bad_port (Express 0 [Compression])) =
     Inr (HttpServer (Express 0 [Compression])) \<and>
   listen_calls (listen_run env_silent args_bad_port) = [ListenPort 65536 ''localhost''] \<and>
   thrown (listen_run env_silent args_bad_port) = [ERR_SOCKET_BAD_PORT 65536] \<and>
   promise (listen_run env_silent args_bad_port) = Pending \<and>
   result (createApp env_silent args_bad_port) = NeverSettles"
proof -
  have a: "\<not> truthy (socket args_bad_port)" and b: "65536 \<le> listen_port args_bad_port"
    by (simp_all add: args_bad_port_def)
  have c: "server_events env_silent = []"
    by (simp add: env_silent_def)
  have d: "snd (create_server env_silent args_bad_port (Express 0 [Compression])) =
     Inr (HttpServer (Express 0 [Compression]))"
    by (simp add: create_server_def args_bad_port_def)
  have l: "listen_calls (listen_run env_silent args_bad_port) =
     [ListenPort 65536 ''localhost'']"
    by (simp add: listen_run_listen_calls listen_def Let_def server_on_error_def
        server_listen_def new_server_def args_bad_port_def replace_brackets_def)
  from createApp_invalid_port_never_settles [OF a b c d] a b c d l show ?thesis
    by (simp add: args_bad_port_def)
qed

subsection \<open>\<^verbatim>\<open>ensureAddress\<close>\<close>

text \<open>
  C6. For an address object the result is \<^verbatim>\<open>http://\<close>, the address, a colon and the
  port, printed as the decimal digits that read back as this port;
  \<^verbatim>\<open>{address: "127.0.0.1", port: 8080}\<close> gives \<^verbatim>\<open>http://127.0.0.1:8080\<close>.
\<close>

theorem ensureAddress_structural:
  "ensureAddress (AddrInfo a) =
     Inr (''http://'' @ address a @ '':'' @ number_to_string (port a)) \<and>
   decimal_value 0 (number_to_string (port a)) = port a \<and>
   ensureAddress (AddrInfo \<lparr>address = ''127.0.0.1'', family = ''IPv4'', port = 8080\<rparr>) =
     Inr ''http://127.0.0.1:8080''"
  by (simp add: ensureAddress_def number_to_string_8080 decimal_value_number_to_string)

text \<open>
  C7. A string address is the socket path on which the server is bound. Every path
  that \<^verbatim>\<open>listen\<close> gives to \<^verbatim>\<open>server.listen\<close> is returned by \<^verbatim>\<open>ensureAddress\<close> as it is, with
  no prefix and no other change, and so is every string that is not empty;
  \<^verbatim>\<open>/tmp/app.sock\<close> is returned unchanged. (A path is bound only when \<^verbatim>\<open>socket\<close> is
  truthy, so the empty string, which \<^verbatim>\<open>!addr\<close> takes for no address, is never one.)
\<close>

theorem ensureAddress_string_verbatim:
  "(ListenPath p \<in> set (listen_calls (listen_run e opts)) \<longrightarrow>
      ensureAddress (AddrString p) = Inr p) \<and>
   (s \<noteq> [] \<longrightarrow> ensureAddress (AddrString s) = Inr s) \<and>
   ensureAddress (AddrString ''/tmp/app.sock'') = Inr ''/tmp/app.sock''"
proof (intro conjI impI)
  assume "ListenPath p \<in> set (listen_calls (listen_run e opts))"
  then have "p \<noteq> []" by (rule bound_path_not_empty)
  then show "ensureAddress (AddrString p) = Inr p"
    by (simp add: ensureAddress_def)
next
  assume "s \<noteq> []"
  then show "ensureAddress (AddrString s) = Inr s"
    by (simp add: ensureAddress_def)
next
  show "ensureAddress (AddrString ''/tmp/app.sock'') = Inr ''/tmp/app.sock''"
    by (simp add: ensureAddress_def)
qed

theorem ensureAddress_string_verbatim_witness:
  "ListenPath ''/tmp/app.sock'' \<in> set (listen_calls (listen_run env_socket_missing args_socket)) \<and>
   ''/tmp/app.sock'' \<noteq> [] \<and>
   ensureAddress (AddrString ''/tmp/app.sock'') = Inr ''/tmp/app.sock''"
proof -
  have b: "ListenPath ''/tmp/app.sock'' \<in>
             set (listen_calls (listen_run env_socket_missing args_socket))"
    by (simp add: listen_run_listen_calls listen_def Let_def server_on_error_def
        server_listen_def handleArgsSocketCatchError_def logger_error_def new_server_def
        args_socket_def split: option.splits)
  from ensureAddress_string_verbatim
    [of "''/tmp/app.sock''" env_socket_missing args_socket "''/tmp/app.sock''"] b
  show ?thesis by simp
qed

text \<open>
  C8. For a server whose \<^verbatim>\<open>address()\<close> is \<^verbatim>\<open>null\<close>, \<^verbatim>\<open>ensureAddress\<close> returns no value: it
  throws the error whose message is \<^verbatim>\<open>server has no address\<close>.
\<close>

theorem ensureAddress_unbound_throws:
  "ensureAddress AddrNull = Inl NoAddressError \<and>
   message NoAddressError = Some ''server has no address''"
  by (simp add: ensureAddress_def NoAddressError_def)

end
